theory Spec2Isabelle
  imports Complex_Main
begin

section \<open>The mortgage calculator of App.tsx\<close>

text \<open>
  The calculator lives in the React component \<open>App\<close>: \<open>calculateFinancials\<close> reads the
  \<open>data\<close> slot, writes the \<open>error\<close> slot through \<open>setError\<close> and returns either
  \<open>null\<close> or a \<open>CalculationResults\<close> object; \<open>handleAnalyzeClick\<close> stores the object
  in the \<open>results\<close> slot. A TypeScript \<open>number\<close> is modelled as a \<open>real\<close>: the
  arithmetic is exact. The rounding of IEEE doubles, overflow, underflow and the values
  \<open>NaN\<close> and \<open>Infinity\<close> are outside the model, so a fact that needs exact arithmetic
  is a fact of the model only: that \<open>(1 + r)^360 - 1\<close> is not zero for a positive \<open>r\<close>,
  that a positive annual rate gives a positive monthly rate, or an algebraic identity
  between two results that the source computes by different expressions. The theorems
  of the last section are therefore stated on the source's own expressions, with the
  source's association, on signs and on the branch that is taken. \<open>Math.pow\<close> is only
  called with the exponent \<open>numberOfPayments = 360\<close>, so it is the power with a natural
  exponent.
\<close>

subsection \<open>types.ts\<close>

record NewHomeDetails =
  estimatedTaxes :: real
  estimatedInsurance :: real
  marketTrends :: string

record FinancialData =
  currentHomeValue :: real
  currentMortgageBalance :: real
  currentInterestRate :: real
  currentMonthlyPayment :: real
  currentHomeAddress :: string
  newHomePrice :: real
  newInterestRate :: real
  newHomeAddress :: string
  monthlyIncome :: real
  autoDebt :: real
  studentDebt :: real
  creditCardDebt :: real
  otherDebt :: real
  newHomeDetails :: "NewHomeDetails option"

record CalculationResults =
  proceedsFromSale :: real
  newLoanAmount :: real
  newMonthlyPayment :: real
  currentDTI :: real
  newDTI :: real
  monthlyPaymentDifference :: real

subsection \<open>The local constants of calculateFinancials\<close>

text \<open>
  Each \<open>const\<close> of the function body is a definition over the \<open>data\<close> it
  is computed from, in the order of the source. A local whose name is also a field of
  \<open>CalculationResults\<close> carries the suffix \<open>_of\<close>.
\<close>

definition sellingCosts :: "FinancialData \<Rightarrow> real" where
  "sellingCosts d = currentHomeValue d * 0.08"

definition proceedsFromSale_of :: "FinancialData \<Rightarrow> real" where
  "proceedsFromSale_of d = currentHomeValue d - currentMortgageBalance d - sellingCosts d"

definition downPayment :: "FinancialData \<Rightarrow> real" where
  "downPayment d = max 0 (proceedsFromSale_of d)"

definition newLoanAmount_of :: "FinancialData \<Rightarrow> real" where
  "newLoanAmount_of d = newHomePrice d - downPayment d"

definition monthlyPropertyTax :: "FinancialData \<Rightarrow> real" where
  "monthlyPropertyTax d =
     (case newHomeDetails d of
        Some h \<Rightarrow> estimatedTaxes h / 12
      | None \<Rightarrow> (newHomePrice d * 0.0125) / 12)"

definition monthlyInsurance :: "FinancialData \<Rightarrow> real" where
  "monthlyInsurance d =
     (case newHomeDetails d of
        Some h \<Rightarrow> estimatedInsurance h / 12
      | None \<Rightarrow> (newHomePrice d * 0.005) / 12)"

definition monthlyRate :: "FinancialData \<Rightarrow> real" where
  "monthlyRate d = newInterestRate d / 100 / 12"

definition numberOfPayments :: nat where
  "numberOfPayments = 30 * 12"

definition principalAndInterest :: "FinancialData \<Rightarrow> real" where
  "principalAndInterest d =
     (if monthlyRate d > 0
      then newLoanAmount_of d * (monthlyRate d * (1 + monthlyRate d) ^ numberOfPayments)
             / ((1 + monthlyRate d) ^ numberOfPayments - 1)
      else newLoanAmount_of d / real numberOfPayments)"

definition newMonthlyPayment_of :: "FinancialData \<Rightarrow> real" where
  "newMonthlyPayment_of d = principalAndInterest d + monthlyPropertyTax d + monthlyInsurance d"

definition totalMonthlyDebt :: "FinancialData \<Rightarrow> real" where
  "totalMonthlyDebt d = autoDebt d + studentDebt d + creditCardDebt d + otherDebt d"

definition currentTotalMonthlyPayments :: "FinancialData \<Rightarrow> real" where
  "currentTotalMonthlyPayments d = currentMonthlyPayment d + totalMonthlyDebt d"

definition newTotalMonthlyPayments :: "FinancialData \<Rightarrow> real" where
  "newTotalMonthlyPayments d = newMonthlyPayment_of d + totalMonthlyDebt d"

definition currentDTI_of :: "FinancialData \<Rightarrow> real" where
  "currentDTI_of d = (currentTotalMonthlyPayments d / monthlyIncome d) * 100"

definition newDTI_of :: "FinancialData \<Rightarrow> real" where
  "newDTI_of d = (newTotalMonthlyPayments d / monthlyIncome d) * 100"

definition monthlyPaymentDifference_of :: "FinancialData \<Rightarrow> real" where
  "monthlyPaymentDifference_of d = newMonthlyPayment_of d - currentMonthlyPayment d"

subsection \<open>calculateFinancials\<close>

text \<open>
  The function returns a pair: the value the \<open>error\<close> slot holds once the function
  has run (\<open>setError('')\<close> first, then at most one message), and the returned object,
  \<open>None\<close> for \<open>null\<close>.
\<close>

definition calculateFinancials :: "FinancialData \<Rightarrow> string \<times> CalculationResults option" where
  "calculateFinancials d =
     (if currentHomeValue d \<le> 0 then
        (''Estimated Home Value must be greater than zero.'', None)
      else if newHomePrice d \<le> 0 then
        (''New Home Purchase Price must be greater than zero.'', None)
      else if newInterestRate d \<le> 0 then
        (''Estimated New Interest Rate must be greater than zero.'', None)
      else if monthlyIncome d \<le> 0 then
        (''Gross Monthly Income must be greater than zero to calculate DTI.'', None)
      else
        ((if proceedsFromSale_of d < 0
          then ''Warning: Your estimated selling costs are more than your home equity.''
          else ''''),
         Some \<lparr> proceedsFromSale = proceedsFromSale_of d,
                newLoanAmount = newLoanAmount_of d,
                newMonthlyPayment = newMonthlyPayment_of d,
                currentDTI = currentDTI_of d,
                newDTI = newDTI_of d,
                monthlyPaymentDifference = monthlyPaymentDifference_of d \<rparr>))"

subsection \<open>The state of App and handleAnalyzeClick\<close>

record App =
  data :: FinancialData
  results :: "CalculationResults option"
  analysis :: string
  isLoading :: bool
  isValueLoading :: bool
  isHomeDetailsLoading :: bool
  error :: string
  isModalOpen :: bool

text \<open>The initial value of the \<open>data\<close> slot, as \<open>useState\<close> is given it.\<close>

definition initialData :: FinancialData where
  "initialData =
     \<lparr> currentHomeValue = 500000, currentMortgageBalance = 250000,
       currentInterestRate = 3.0, currentMonthlyPayment = 1800,
       currentHomeAddress = '''', newHomePrice = 750000, newInterestRate = 6.5,
       newHomeAddress = '''', monthlyIncome = 10000, autoDebt = 500,
       studentDebt = 300, creditCardDebt = 200, otherDebt = 0,
       newHomeDetails = None \<rparr>"

text \<open>
  \<open>handleAnalyzeClick\<close> is asynchronous. \<open>handleAnalyzeClick_pending\<close> is the state
  while the call of \<open>getFinancialAnalysis\<close> is awaited, \<open>handleAnalyzeClick\<close> the state
  once the handler has finished. The service is a parameter: it always resolves to a
  string, since it catches its own errors.
\<close>

definition handleAnalyzeClick_pending :: "App \<Rightarrow> App" where
  "handleAnalyzeClick_pending s =
     (case calculateFinancials (data s) of
        (e, None) \<Rightarrow> s\<lparr>error := e\<rparr>
      | (e, Some calculatedResults) \<Rightarrow>
          s\<lparr>error := e, results := Some calculatedResults, isLoading := True, analysis := ''''\<rparr>)"

definition handleAnalyzeClick ::
  "(FinancialData \<Rightarrow> CalculationResults \<Rightarrow> string) \<Rightarrow> App \<Rightarrow> App" where
  "handleAnalyzeClick getFinancialAnalysis s =
     (case calculateFinancials (data s) of
        (e, None) \<Rightarrow> s\<lparr>error := e\<rparr>
      | (e, Some calculatedResults) \<Rightarrow>
          (handleAnalyzeClick_pending s)
            \<lparr>analysis := getFinancialAnalysis (data s) calculatedResults, isLoading := False\<rparr>)"

section \<open>Auxiliary facts\<close>

lemma calculateFinancials_Some:
  assumes "snd (calculateFinancials d) = Some r"
  shows "0 < currentHomeValue d" and "0 < newHomePrice d"
    and "0 < newInterestRate d" and "0 < monthlyIncome d"
    and "proceedsFromSale r = proceedsFromSale_of d"
    and "newLoanAmount r = newLoanAmount_of d"
    and "newMonthlyPayment r = newMonthlyPayment_of d"
    and "currentDTI r = currentDTI_of d"
    and "newDTI r = newDTI_of d"
    and "monthlyPaymentDifference r = monthlyPaymentDifference_of d"
  using assms by (auto simp: calculateFinancials_def split: if_splits)

lemma initialData_valid:
  "snd (calculateFinancials initialData) =
     Some \<lparr> proceedsFromSale = proceedsFromSale_of initialData,
            newLoanAmount = newLoanAmount_of initialData,
            newMonthlyPayment = newMonthlyPayment_of initialData,
            currentDTI = currentDTI_of initialData,
            newDTI = newDTI_of initialData,
            monthlyPaymentDifference = monthlyPaymentDifference_of initialData \<rparr>"
  by (simp add: calculateFinancials_def initialData_def proceedsFromSale_of_def sellingCosts_def)

lemma initialData_fields:
  "currentHomeValue initialData = 500000"
  "currentMortgageBalance initialData = 250000"
  "currentMonthlyPayment initialData = 1800"
  "newHomePrice initialData = 750000"
  "newInterestRate initialData = 6.5"
  "monthlyIncome initialData = 10000"
  "autoDebt initialData = 500"
  "studentDebt initialData = 300"
  "creditCardDebt initialData = 200"
  "otherDebt initialData = 0"
  "newHomeDetails initialData = None"
  by (simp_all add: initialData_def)

lemma calculateFinancials_valid:
  assumes "0 < currentHomeValue d" "0 < newHomePrice d" "0 < newInterestRate d"
    "0 < monthlyIncome d"
  shows "snd (calculateFinancials d) =
     Some \<lparr> proceedsFromSale = proceedsFromSale_of d,
            newLoanAmount = newLoanAmount_of d,
            newMonthlyPayment = newMonthlyPayment_of d,
            currentDTI = currentDTI_of d,
            newDTI = newDTI_of d,
            monthlyPaymentDifference = monthlyPaymentDifference_of d \<rparr>"
  using assms by (simp add: calculateFinancials_def)

lemma Some_the: "x \<noteq> None \<Longrightarrow> x = Some (the x)"
  by simp

lemma pow_gt_one: "0 < (x::real) \<Longrightarrow> 1 < (1 + x) ^ numberOfPayments"
  by (simp add: numberOfPayments_def)

lemma principalAndInterest_nonneg:
  assumes "0 < monthlyRate d" and "0 \<le> newLoanAmount_of d"
  shows "0 \<le> principalAndInterest d"
proof -
  have "1 < (1 + monthlyRate d) ^ numberOfPayments"
    using assms(1) by (rule pow_gt_one)
  with assms show ?thesis
    by (simp add: principalAndInterest_def)
qed

lemma principalAndInterest_le:
  assumes "0 < monthlyRate d" and "newLoanAmount_of d \<le> 0"
  shows "principalAndInterest d \<le> newLoanAmount_of d * monthlyRate d"
proof -
  define p where "p = (1 + monthlyRate d) ^ numberOfPayments"
  have p: "1 < p"
    unfolding p_def using assms(1) by (rule pow_gt_one)
  have "monthlyRate d * (p - 1) \<le> monthlyRate d * p"
    using assms(1) by simp
  then have "monthlyRate d \<le> monthlyRate d * p / (p - 1)"
    using p by (simp add: pos_le_divide_eq)
  then have "newLoanAmount_of d * (monthlyRate d * p / (p - 1))
      \<le> newLoanAmount_of d * monthlyRate d"
    using assms(2) by (rule mult_left_mono_neg)
  then show ?thesis
    using assms(1) by (simp add: principalAndInterest_def p_def)
qed

section \<open>The claims\<close>

text \<open>
  Claim C1. For every profile that passes validation, \<open>totalMonthlyDebt\<close> is the sum
  of the four recurring debts, \<open>currentDTI\<close> is
  \<open>(currentMonthlyPayment + totalMonthlyDebt) / monthlyIncome * 100\<close> and \<open>newDTI\<close> is
  \<open>(newMonthlyPayment + totalMonthlyDebt) / monthlyIncome * 100\<close>, read off the fields
  of the returned object.
\<close>

theorem C1_dti_formulas:
  assumes "snd (calculateFinancials d) = Some r"
  shows "totalMonthlyDebt d = autoDebt d + studentDebt d + creditCardDebt d + otherDebt d
       \<and> currentDTI r = (currentMonthlyPayment d + totalMonthlyDebt d) / monthlyIncome d * 100
       \<and> newDTI r = (newMonthlyPayment r + totalMonthlyDebt d) / monthlyIncome d * 100"
  using calculateFinancials_Some [OF assms]
  by (simp add: totalMonthlyDebt_def currentDTI_of_def newDTI_of_def
      currentTotalMonthlyPayments_def newTotalMonthlyPayments_def)

theorem C1_dti_formulas_witness:
  "snd (calculateFinancials initialData) \<noteq> None
   \<and> totalMonthlyDebt initialData = 1000
   \<and> currentDTI (the (snd (calculateFinancials initialData))) = 28
   \<and> newDTI (the (snd (calculateFinancials initialData)))
       = (newMonthlyPayment (the (snd (calculateFinancials initialData))) + 1000) / 10000 * 100"
proof -
  have v: "snd (calculateFinancials initialData) = Some (the (snd (calculateFinancials initialData)))"
    by (simp add: initialData_valid)
  have "snd (calculateFinancials initialData) \<noteq> None"
    by (simp add: initialData_valid)
  with C1_dti_formulas [OF v] show ?thesis
    by (simp add: initialData_fields)
qed

text \<open>
  Claim C2. Validation has four rules, tried in the order \<open>currentHomeValue \<le> 0\<close>,
  \<open>newHomePrice \<le> 0\<close>, \<open>newInterestRate \<le> 0\<close>, \<open>monthlyIncome \<le> 0\<close>. The first rule
  that fires decides the message whatever the later fields are; if any of the four
  conditions holds nothing is returned, and if none holds an object is returned, so
  there is no fifth rule.
\<close>

theorem C2_validation_order:
  "(currentHomeValue d \<le> 0 \<longrightarrow>
      calculateFinancials d = (''Estimated Home Value must be greater than zero.'', None))
   \<and> (0 < currentHomeValue d \<and> newHomePrice d \<le> 0 \<longrightarrow>
      calculateFinancials d = (''New Home Purchase Price must be greater than zero.'', None))
   \<and> (0 < currentHomeValue d \<and> 0 < newHomePrice d \<and> newInterestRate d \<le> 0 \<longrightarrow>
      calculateFinancials d =
        (''Estimated New Interest Rate must be greater than zero.'', None))
   \<and> (0 < currentHomeValue d \<and> 0 < newHomePrice d \<and> 0 < newInterestRate d
        \<and> monthlyIncome d \<le> 0 \<longrightarrow>
      calculateFinancials d =
        (''Gross Monthly Income must be greater than zero to calculate DTI.'', None))
   \<and> (currentHomeValue d \<le> 0 \<or> newHomePrice d \<le> 0 \<or> newInterestRate d \<le> 0
        \<or> monthlyIncome d \<le> 0 \<longrightarrow> snd (calculateFinancials d) = None)
   \<and> (0 < currentHomeValue d \<and> 0 < newHomePrice d \<and> 0 < newInterestRate d
        \<and> 0 < monthlyIncome d \<longrightarrow> snd (calculateFinancials d) \<noteq> None)"
  by (simp add: calculateFinancials_def)

theorem C2_validation_order_witness:
  "calculateFinancials
     (initialData\<lparr>currentHomeValue := 0, newHomePrice := - 1, newInterestRate := 0,
        monthlyIncome := 0\<rparr>)
     = (''Estimated Home Value must be greater than zero.'', None)
   \<and> calculateFinancials (initialData\<lparr>newHomePrice := 0, monthlyIncome := - 5\<rparr>)
     = (''New Home Purchase Price must be greater than zero.'', None)
   \<and> calculateFinancials (initialData\<lparr>newInterestRate := 0, monthlyIncome := 0\<rparr>)
     = (''Estimated New Interest Rate must be greater than zero.'', None)
   \<and> calculateFinancials (initialData\<lparr>monthlyIncome := 0\<rparr>)
     = (''Gross Monthly Income must be greater than zero to calculate DTI.'', None)
   \<and> snd (calculateFinancials initialData) \<noteq> None"
  using
    C2_validation_order [of "initialData\<lparr>currentHomeValue := 0, newHomePrice := - 1,
        newInterestRate := 0, monthlyIncome := 0\<rparr>"]
    C2_validation_order [of "initialData\<lparr>newHomePrice := 0, monthlyIncome := - 5\<rparr>"]
    C2_validation_order [of "initialData\<lparr>newInterestRate := 0, monthlyIncome := 0\<rparr>"]
    C2_validation_order [of "initialData\<lparr>monthlyIncome := 0\<rparr>"]
    C2_validation_order [of initialData]
  by (simp add: initialData_fields)

text \<open>
  Claim C3. For every validated profile \<open>sellingCosts\<close> is \<open>currentHomeValue * 0.08\<close>
  and the returned \<open>proceedsFromSale\<close> is
  \<open>currentHomeValue - currentMortgageBalance - sellingCosts\<close>; with a home value of
  500000 and a balance of 250000 these are 40000 and 210000.
\<close>

theorem C3_selling_costs_and_proceeds:
  assumes "snd (calculateFinancials d) = Some r"
  shows "sellingCosts d = currentHomeValue d * 0.08
       \<and> proceedsFromSale r = currentHomeValue d - currentMortgageBalance d - sellingCosts d
       \<and> (currentHomeValue d = 500000 \<and> currentMortgageBalance d = 250000 \<longrightarrow>
            sellingCosts d = 40000 \<and> proceedsFromSale r = 210000)"
  using calculateFinancials_Some(5) [OF assms]
  by (simp add: sellingCosts_def proceedsFromSale_of_def)

theorem C3_selling_costs_and_proceeds_witness:
  "snd (calculateFinancials initialData) \<noteq> None
   \<and> sellingCosts initialData = 40000
   \<and> proceedsFromSale (the (snd (calculateFinancials initialData))) = 210000"
proof -
  have v: "snd (calculateFinancials initialData) \<noteq> None"
    by (simp add: initialData_valid)
  from C3_selling_costs_and_proceeds [OF Some_the [OF v]] v show ?thesis
    by (simp add: initialData_fields)
qed

text \<open>
  Claim C4. For every validated profile the returned \<open>newLoanAmount\<close> is
  \<open>newHomePrice - max(0, proceedsFromSale)\<close>; when the proceeds are negative the down
  payment is 0 and the loan amount is the new home price.
\<close>

theorem C4_new_loan_amount:
  assumes "snd (calculateFinancials d) = Some r"
  shows "newLoanAmount r = newHomePrice d - max 0 (proceedsFromSale r)
       \<and> (proceedsFromSale r < 0 \<longrightarrow> downPayment d = 0 \<and> newLoanAmount r = newHomePrice d)"
  using calculateFinancials_Some(5,6) [OF assms]
  by (simp add: newLoanAmount_of_def downPayment_def)

theorem C4_new_loan_amount_witness:
  "snd (calculateFinancials
          (initialData\<lparr>currentHomeValue := 100000, currentMortgageBalance := 200000\<rparr>))
     \<noteq> None
   \<and> proceedsFromSale (the (snd (calculateFinancials
          (initialData\<lparr>currentHomeValue := 100000, currentMortgageBalance := 200000\<rparr>))))
     = - 108000
   \<and> downPayment (initialData\<lparr>currentHomeValue := 100000, currentMortgageBalance := 200000\<rparr>)
     = 0
   \<and> newLoanAmount (the (snd (calculateFinancials
          (initialData\<lparr>currentHomeValue := 100000, currentMortgageBalance := 200000\<rparr>))))
     = 750000"
  (is "snd (calculateFinancials ?d) \<noteq> None \<and> _")
proof -
  have v: "snd (calculateFinancials ?d) \<noteq> None"
    by (simp add: calculateFinancials_valid initialData_fields)
  have p: "proceedsFromSale (the (snd (calculateFinancials ?d))) = - 108000"
    by (simp add: calculateFinancials_valid initialData_fields proceedsFromSale_of_def
        sellingCosts_def)
  from C4_new_loan_amount [OF Some_the [OF v]] v p show ?thesis
    by (simp add: initialData_fields)
qed

text \<open>
  Claim C5. Negative proceeds are not an error: if the four validation rules pass and
  \<open>currentHomeValue - currentMortgageBalance - currentHomeValue * 0.08\<close> is negative,
  \<open>calculateFinancials\<close> sets only the warning message and returns a full object.
  Its \<open>proceedsFromSale\<close> is the negative value as computed, and the computation goes
  on from there: the loan amount is the whole new home price, the payment is principal
  and interest on that price plus tax and insurance, and both ratios and the payment
  difference are computed from it as for any other profile.
\<close>

theorem C5_negative_proceeds_soft:
  assumes "0 < currentHomeValue d" and "0 < newHomePrice d" and "0 < newInterestRate d"
    and "0 < monthlyIncome d"
    and "currentHomeValue d - currentMortgageBalance d - currentHomeValue d * 0.08 < 0"
  shows "\<exists>r. calculateFinancials d =
            (''Warning: Your estimated selling costs are more than your home equity.'', Some r)
          \<and> proceedsFromSale r
              = currentHomeValue d - currentMortgageBalance d - currentHomeValue d * 0.08
          \<and> proceedsFromSale r < 0
          \<and> newLoanAmount r = newHomePrice d
          \<and> principalAndInterest d
              = (if 0 < monthlyRate d
                 then newHomePrice d * (monthlyRate d * (1 + monthlyRate d) ^ 360)
                        / ((1 + monthlyRate d) ^ 360 - 1)
                 else newHomePrice d / 360)
          \<and> newMonthlyPayment r
              = principalAndInterest d + monthlyPropertyTax d + monthlyInsurance d
          \<and> currentDTI r
              = (currentMonthlyPayment d + totalMonthlyDebt d) / monthlyIncome d * 100
          \<and> newDTI r = (newMonthlyPayment r + totalMonthlyDebt d) / monthlyIncome d * 100
          \<and> monthlyPaymentDifference r = newMonthlyPayment r - currentMonthlyPayment d"
proof -
  have neg: "proceedsFromSale_of d < 0"
    using assms(5) by (simp add: proceedsFromSale_of_def sellingCosts_def)
  then have loan: "newLoanAmount_of d = newHomePrice d"
    by (simp add: newLoanAmount_of_def downPayment_def)
  have pi: "principalAndInterest d
      = (if 0 < monthlyRate d
         then newHomePrice d * (monthlyRate d * (1 + monthlyRate d) ^ 360)
                / ((1 + monthlyRate d) ^ 360 - 1)
         else newHomePrice d / 360)"
    by (simp add: principalAndInterest_def numberOfPayments_def loan)
  have "calculateFinancials d =
      (''Warning: Your estimated selling costs are more than your home equity.'',
       Some \<lparr> proceedsFromSale = proceedsFromSale_of d,
              newLoanAmount = newLoanAmount_of d,
              newMonthlyPayment = newMonthlyPayment_of d,
              currentDTI = currentDTI_of d,
              newDTI = newDTI_of d,
              monthlyPaymentDifference = monthlyPaymentDifference_of d \<rparr>)"
    using assms(1-4) neg by (simp add: calculateFinancials_def)
  moreover have "proceedsFromSale_of d
      = currentHomeValue d - currentMortgageBalance d - currentHomeValue d * 0.08"
    by (simp add: proceedsFromSale_of_def sellingCosts_def)
  ultimately show ?thesis
    using neg loan pi
    by (simp add: newMonthlyPayment_of_def currentDTI_of_def newDTI_of_def
        monthlyPaymentDifference_of_def currentTotalMonthlyPayments_def
        newTotalMonthlyPayments_def)
qed

theorem C5_negative_proceeds_soft_witness:
  "fst (calculateFinancials
          (initialData\<lparr>currentHomeValue := 100000, currentMortgageBalance := 200000\<rparr>))
     = ''Warning: Your estimated selling costs are more than your home equity.''
   \<and> snd (calculateFinancials
          (initialData\<lparr>currentHomeValue := 100000, currentMortgageBalance := 200000\<rparr>))
     \<noteq> None
   \<and> proceedsFromSale (the (snd (calculateFinancials
          (initialData\<lparr>currentHomeValue := 100000, currentMortgageBalance := 200000\<rparr>))))
     = - 108000
   \<and> newLoanAmount (the (snd (calculateFinancials
          (initialData\<lparr>currentHomeValue := 100000, currentMortgageBalance := 200000\<rparr>))))
     = 750000
   \<and> newMonthlyPayment (the (snd (calculateFinancials
          (initialData\<lparr>currentHomeValue := 100000, currentMortgageBalance := 200000\<rparr>))))
     = principalAndInterest
          (initialData\<lparr>currentHomeValue := 100000, currentMortgageBalance := 200000\<rparr>)
       + 781.25 + 312.5
   \<and> currentDTI (the (snd (calculateFinancials
          (initialData\<lparr>currentHomeValue := 100000, currentMortgageBalance := 200000\<rparr>))))
     = (1800 + 1000) / 10000 * 100
   \<and> newDTI (the (snd (calculateFinancials
          (initialData\<lparr>currentHomeValue := 100000, currentMortgageBalance := 200000\<rparr>))))
     = (newMonthlyPayment (the (snd (calculateFinancials
          (initialData\<lparr>currentHomeValue := 100000, currentMortgageBalance := 200000\<rparr>))))
        + 1000) / 10000 * 100
   \<and> monthlyPaymentDifference (the (snd (calculateFinancials
          (initialData\<lparr>currentHomeValue := 100000, currentMortgageBalance := 200000\<rparr>))))
     = newMonthlyPayment (the (snd (calculateFinancials
          (initialData\<lparr>currentHomeValue := 100000, currentMortgageBalance := 200000\<rparr>))))
       - 1800"
proof -
  let ?d = "initialData\<lparr>currentHomeValue := 100000, currentMortgageBalance := 200000\<rparr>"
  have t: "totalMonthlyDebt ?d = 1000"
    by (simp add: totalMonthlyDebt_def initialData_fields)
  have x: "monthlyPropertyTax ?d = 781.25" "monthlyInsurance ?d = 312.5"
    by (simp_all add: monthlyPropertyTax_def monthlyInsurance_def initialData_fields)
  have "0 < currentHomeValue ?d" "0 < newHomePrice ?d" "0 < newInterestRate ?d"
    "0 < monthlyIncome ?d"
    "currentHomeValue ?d - currentMortgageBalance ?d - currentHomeValue ?d * 0.08 < 0"
    by (simp_all add: initialData_fields)
  from C5_negative_proceeds_soft [OF this] show ?thesis
    by (auto simp add: initialData_fields t x)
qed

text \<open>
  Claim C6. For every validated profile: when \<open>newHomeDetails\<close> is present the
  monthly tax is \<open>estimatedTaxes / 12\<close> and the monthly insurance is
  \<open>estimatedInsurance / 12\<close>; when it is absent they are \<open>newHomePrice * 0.0125 / 12\<close>
  and \<open>newHomePrice * 0.005 / 12\<close>. These are the amounts that enter the returned
  \<open>newMonthlyPayment\<close>.
\<close>

theorem C6_tax_and_insurance:
  assumes "snd (calculateFinancials d) = Some r"
  shows "(\<forall>h. newHomeDetails d = Some h \<longrightarrow>
            monthlyPropertyTax d = estimatedTaxes h / 12
            \<and> monthlyInsurance d = estimatedInsurance h / 12)
       \<and> (newHomeDetails d = None \<longrightarrow>
            monthlyPropertyTax d = newHomePrice d * 0.0125 / 12
            \<and> monthlyInsurance d = newHomePrice d * 0.005 / 12)
       \<and> newMonthlyPayment r
            = principalAndInterest d + monthlyPropertyTax d + monthlyInsurance d"
  using calculateFinancials_Some(7) [OF assms]
  by (simp add: monthlyPropertyTax_def monthlyInsurance_def newMonthlyPayment_of_def)

theorem C6_tax_and_insurance_witness:
  "snd (calculateFinancials initialData) \<noteq> None
   \<and> monthlyPropertyTax initialData = 781.25
   \<and> monthlyInsurance initialData = 312.5
   \<and> snd (calculateFinancials
        (initialData\<lparr>newHomeDetails :=
           Some \<lparr>estimatedTaxes = 9000, estimatedInsurance = 2400, marketTrends = ''''\<rparr>\<rparr>))
       \<noteq> None
   \<and> monthlyPropertyTax
        (initialData\<lparr>newHomeDetails :=
           Some \<lparr>estimatedTaxes = 9000, estimatedInsurance = 2400, marketTrends = ''''\<rparr>\<rparr>)
       = 750
   \<and> monthlyInsurance
        (initialData\<lparr>newHomeDetails :=
           Some \<lparr>estimatedTaxes = 9000, estimatedInsurance = 2400, marketTrends = ''''\<rparr>\<rparr>)
       = 200"
  (is "_ \<and> _ \<and> _ \<and> snd (calculateFinancials ?d) \<noteq> None \<and> _")
proof -
  have v: "snd (calculateFinancials initialData) \<noteq> None"
    by (simp add: initialData_valid)
  have w: "snd (calculateFinancials ?d) \<noteq> None"
    by (simp add: calculateFinancials_valid initialData_fields)
  from C6_tax_and_insurance [OF Some_the [OF v]] C6_tax_and_insurance [OF Some_the [OF w]] v w
  show ?thesis
    by (simp add: initialData_fields)
qed

text \<open>
  Claim C7. With the monthly rate \<open>r = newInterestRate / 100 / 12\<close>, principal and
  interest is the amortization formula over 360 payments,
  \<open>newLoanAmount * (r * (1 + r)^360) / ((1 + r)^360 - 1)\<close> with the product associated
  as the source writes it, when \<open>r > 0\<close>, and \<open>newLoanAmount / 360\<close> when \<open>r = 0\<close>; the
  latter is stated on the local constants, since validation rejects a rate of 0. For a
  validated profile this amount, on the returned \<open>newLoanAmount\<close>, is the
  principal-and-interest part of the returned \<open>newMonthlyPayment\<close>.
\<close>

theorem C7_amortization:
  "monthlyRate d = newInterestRate d / 100 / 12
   \<and> (0 < monthlyRate d \<longrightarrow>
        principalAndInterest d
          = newLoanAmount_of d * (monthlyRate d * (1 + monthlyRate d) ^ 360)
              / ((1 + monthlyRate d) ^ 360 - 1))
   \<and> (monthlyRate d = 0 \<longrightarrow> principalAndInterest d = newLoanAmount_of d / 360)
   \<and> (\<forall>r. snd (calculateFinancials d) = Some r \<longrightarrow>
        newLoanAmount r = newLoanAmount_of d
        \<and> newMonthlyPayment r
            = principalAndInterest d + monthlyPropertyTax d + monthlyInsurance d)"
proof -
  have a: "principalAndInterest d
          = newLoanAmount_of d * (monthlyRate d * (1 + monthlyRate d) ^ 360)
              / ((1 + monthlyRate d) ^ 360 - 1)" if "0 < monthlyRate d"
    using that by (simp add: principalAndInterest_def numberOfPayments_def)
  have b: "principalAndInterest d = newLoanAmount_of d / 360" if "monthlyRate d = 0"
    using that by (simp add: principalAndInterest_def numberOfPayments_def)
  have c: "newLoanAmount r = newLoanAmount_of d
        \<and> newMonthlyPayment r
            = principalAndInterest d + monthlyPropertyTax d + monthlyInsurance d"
    if v: "snd (calculateFinancials d) = Some r" for r
    using calculateFinancials_Some(6,7) [OF v] by (simp add: newMonthlyPayment_of_def)
  have m: "monthlyRate d = newInterestRate d / 100 / 12"
    by (simp add: monthlyRate_def)
  from m a b c show ?thesis
    by blast
qed

theorem C7_amortization_witness:
  "monthlyRate (initialData\<lparr>newInterestRate := 0\<rparr>) = 0
   \<and> principalAndInterest (initialData\<lparr>newInterestRate := 0\<rparr>) = 540000 / 360
   \<and> monthlyRate initialData = 6.5 / 100 / 12
   \<and> 0 < monthlyRate initialData
   \<and> principalAndInterest initialData
        = 540000 * (monthlyRate initialData * (1 + monthlyRate initialData) ^ 360)
            / ((1 + monthlyRate initialData) ^ 360 - 1)
   \<and> snd (calculateFinancials initialData) \<noteq> None
   \<and> newLoanAmount (the (snd (calculateFinancials initialData))) = 540000
   \<and> newMonthlyPayment (the (snd (calculateFinancials initialData)))
        = principalAndInterest initialData + 781.25 + 312.5"
proof -
  let ?z = "initialData\<lparr>newInterestRate := 0\<rparr>"
  let ?r = "the (snd (calculateFinancials initialData))"
  have l0: "newLoanAmount_of ?z = 540000"
    by (simp add: newLoanAmount_of_def downPayment_def proceedsFromSale_of_def
        sellingCosts_def initialData_fields)
  have l1: "newLoanAmount_of initialData = 540000"
    by (simp add: newLoanAmount_of_def downPayment_def proceedsFromSale_of_def
        sellingCosts_def initialData_fields)
  have t: "monthlyPropertyTax initialData = 781.25" "monthlyInsurance initialData = 312.5"
    by (simp_all add: monthlyPropertyTax_def monthlyInsurance_def initialData_fields)
  have nn: "snd (calculateFinancials initialData) \<noteq> None"
    by (simp add: initialData_valid)
  have v: "snd (calculateFinancials initialData) = Some ?r"
    using nn by (rule Some_the)
  have m0: "monthlyRate ?z = 0"
    using C7_amortization [of ?z] by simp
  have m1: "monthlyRate initialData = 6.5 / 100 / 12"
    using C7_amortization [of initialData] by (simp add: initialData_fields)
  have pos: "0 < monthlyRate initialData"
    by (simp add: m1)
  have "principalAndInterest ?z = newLoanAmount_of ?z / 360"
    using C7_amortization [of ?z] m0 by blast
  then have p0: "principalAndInterest ?z = 540000 / 360"
    unfolding l0 .
  have "principalAndInterest initialData
      = newLoanAmount_of initialData
          * (monthlyRate initialData * (1 + monthlyRate initialData) ^ 360)
          / ((1 + monthlyRate initialData) ^ 360 - 1)"
    using C7_amortization [of initialData] pos by blast
  then have p1: "principalAndInterest initialData
      = 540000 * (monthlyRate initialData * (1 + monthlyRate initialData) ^ 360)
          / ((1 + monthlyRate initialData) ^ 360 - 1)"
    unfolding l1 .
  have "newLoanAmount ?r = newLoanAmount_of initialData
      \<and> newMonthlyPayment ?r
          = principalAndInterest initialData + monthlyPropertyTax initialData
            + monthlyInsurance initialData"
    using C7_amortization [of initialData] v by blast
  then have p2: "newLoanAmount ?r = 540000"
    and p3: "newMonthlyPayment ?r = principalAndInterest initialData + 781.25 + 312.5"
    unfolding l1 t by simp_all
  from m0 p0 m1 pos p1 nn p2 p3 show ?thesis
    by (intro conjI)
qed

text \<open>
  Claim C8, amended. For every validated profile (so \<open>monthlyIncome > 0\<close>):
  \<open>currentDTI \<ge> 0\<close> whenever \<open>currentMonthlyPayment + totalMonthlyDebt \<ge> 0\<close>, and
  \<open>newDTI \<ge> 0\<close> whenever \<open>newMonthlyPayment + totalMonthlyDebt \<ge> 0\<close>. Each ratio is
  its sum divided by the positive income and multiplied by 100, so it has the sign of
  the sum.
\<close>

theorem C8_dti_nonneg:
  assumes "snd (calculateFinancials d) = Some r"
  shows "(0 \<le> currentMonthlyPayment d + totalMonthlyDebt d \<longrightarrow> 0 \<le> currentDTI r)
       \<and> (0 \<le> newMonthlyPayment r + totalMonthlyDebt d \<longrightarrow> 0 \<le> newDTI r)"
proof -
  note v = calculateFinancials_Some [OF assms]
  have inc: "0 < monthlyIncome d"
    by (rule v(4))
  have a: "0 \<le> currentDTI r" if "0 \<le> currentMonthlyPayment d + totalMonthlyDebt d"
    using that inc by (simp add: v(8) currentDTI_of_def currentTotalMonthlyPayments_def)
  have b: "0 \<le> newDTI r" if "0 \<le> newMonthlyPayment r + totalMonthlyDebt d"
    using that inc by (simp add: v(7,9) newDTI_of_def newTotalMonthlyPayments_def)
  from a b show ?thesis
    by blast
qed

theorem C8_dti_nonneg_witness:
  "snd (calculateFinancials initialData) \<noteq> None
   \<and> 0 \<le> currentMonthlyPayment initialData + totalMonthlyDebt initialData
   \<and> 0 \<le> currentDTI (the (snd (calculateFinancials initialData)))
   \<and> 0 \<le> newMonthlyPayment (the (snd (calculateFinancials initialData)))
         + totalMonthlyDebt initialData
   \<and> 0 \<le> newDTI (the (snd (calculateFinancials initialData)))"
proof -
  let ?r = "the (snd (calculateFinancials initialData))"
  have nn: "snd (calculateFinancials initialData) \<noteq> None"
    by (simp add: initialData_valid)
  have t: "totalMonthlyDebt initialData = 1000"
    by (simp add: totalMonthlyDebt_def initialData_fields)
  have h1: "0 \<le> currentMonthlyPayment initialData + totalMonthlyDebt initialData"
    by (simp add: t initialData_fields)
  have l: "newLoanAmount_of initialData = 540000"
    by (simp add: newLoanAmount_of_def downPayment_def proceedsFromSale_of_def
        sellingCosts_def initialData_fields)
  have x: "monthlyPropertyTax initialData = 781.25" "monthlyInsurance initialData = 312.5"
    by (simp_all add: monthlyPropertyTax_def monthlyInsurance_def initialData_fields)
  have "0 \<le> principalAndInterest initialData"
    by (rule principalAndInterest_nonneg) (simp_all add: l monthlyRate_def initialData_fields)
  then have h6: "0 \<le> newMonthlyPayment ?r + totalMonthlyDebt initialData"
    by (simp add: initialData_valid newMonthlyPayment_of_def t x)
  note inst = C8_dti_nonneg [OF Some_the [OF nn]]
  from inst h1 have c1: "0 \<le> currentDTI ?r"
    by blast
  from inst h6 have c2: "0 \<le> newDTI ?r"
    by blast
  from nn h1 c1 h6 c2 show ?thesis
    by (intro conjI)
qed

text \<open>
  Without these conditions both ratios can be negative, since \<open>calculateFinancials\<close>
  checks no sign but those of its four rules. With a current payment of -2000 the
  current ratio is negative. With a home worth 2000000, no mortgage and a new home of
  100000 the proceeds exceed the price, the loan amount is -1740000, principal and
  interest is at most -9425 and the new ratio is negative, although the current payment
  and all debts are at least 0.
\<close>

theorem C8_counterexample:
  "snd (calculateFinancials (initialData\<lparr>currentMonthlyPayment := - 2000\<rparr>)) \<noteq> None
   \<and> 0 < monthlyIncome (initialData\<lparr>currentMonthlyPayment := - 2000\<rparr>)
   \<and> currentDTI (the (snd (calculateFinancials
        (initialData\<lparr>currentMonthlyPayment := - 2000\<rparr>)))) < 0
   \<and> snd (calculateFinancials
        (initialData\<lparr>currentHomeValue := 2000000, currentMortgageBalance := 0,
           newHomePrice := 100000\<rparr>)) \<noteq> None
   \<and> 0 < monthlyIncome
        (initialData\<lparr>currentHomeValue := 2000000, currentMortgageBalance := 0,
           newHomePrice := 100000\<rparr>)
   \<and> 0 \<le> currentMonthlyPayment
        (initialData\<lparr>currentHomeValue := 2000000, currentMortgageBalance := 0,
           newHomePrice := 100000\<rparr>)
       + totalMonthlyDebt
        (initialData\<lparr>currentHomeValue := 2000000, currentMortgageBalance := 0,
           newHomePrice := 100000\<rparr>)
   \<and> newDTI (the (snd (calculateFinancials
        (initialData\<lparr>currentHomeValue := 2000000, currentMortgageBalance := 0,
           newHomePrice := 100000\<rparr>)))) < 0"
proof -
  let ?a = "initialData\<lparr>currentMonthlyPayment := - 2000\<rparr>"
  let ?b = "initialData\<lparr>currentHomeValue := 2000000, currentMortgageBalance := 0,
           newHomePrice := 100000\<rparr>"
  have va: "snd (calculateFinancials ?a) \<noteq> None"
    by (simp add: calculateFinancials_valid initialData_fields)
  have ia: "0 < monthlyIncome ?a"
    by (simp add: initialData_fields)
  have ca: "currentDTI (the (snd (calculateFinancials ?a))) < 0"
    by (simp add: calculateFinancials_valid initialData_fields currentDTI_of_def
        currentTotalMonthlyPayments_def totalMonthlyDebt_def)
  have vb: "snd (calculateFinancials ?b) \<noteq> None"
    by (simp add: calculateFinancials_valid initialData_fields)
  have ib: "0 < monthlyIncome ?b"
    by (simp add: initialData_fields)
  have tb: "totalMonthlyDebt ?b = 1000"
    by (simp add: totalMonthlyDebt_def initialData_fields)
  have hb: "0 \<le> currentMonthlyPayment ?b + totalMonthlyDebt ?b"
    by (simp add: tb initialData_fields)
  have lb: "newLoanAmount_of ?b = - 1740000"
    by (simp add: newLoanAmount_of_def downPayment_def proceedsFromSale_of_def
        sellingCosts_def initialData_fields)
  have mb: "monthlyRate ?b = 13 / 2400"
    by (simp add: monthlyRate_def initialData_fields)
  have "principalAndInterest ?b \<le> newLoanAmount_of ?b * monthlyRate ?b"
    by (rule principalAndInterest_le) (simp_all add: lb mb)
  then have pb: "principalAndInterest ?b \<le> - 9425"
    by (simp add: lb mb)
  have xb: "monthlyPropertyTax ?b + monthlyInsurance ?b \<le> 146"
    by (simp add: monthlyPropertyTax_def monthlyInsurance_def initialData_fields)
  have "newTotalMonthlyPayments ?b < 0"
    using pb xb tb by (simp add: newTotalMonthlyPayments_def newMonthlyPayment_of_def)
  then have "newDTI_of ?b < 0"
    by (simp add: newDTI_of_def initialData_fields divide_neg_pos)
  then have nb: "newDTI (the (snd (calculateFinancials ?b))) < 0"
    by (simp add: calculateFinancials_valid initialData_fields)
  from va ia ca vb ib hb nb show ?thesis
    by (intro conjI)
qed

text \<open>
  Claim C9. When any of the four validation rules fails, \<open>handleAnalyzeClick\<close> leaves
  the \<open>results\<close> slot as it was, while the analysis is awaited and afterwards: the only
  slot that changes is \<open>error\<close>.
\<close>

theorem C9_failure_keeps_results:
  assumes "currentHomeValue (data s) \<le> 0 \<or> newHomePrice (data s) \<le> 0
         \<or> newInterestRate (data s) \<le> 0 \<or> monthlyIncome (data s) \<le> 0"
  shows "results (handleAnalyzeClick getFinancialAnalysis s) = results s
       \<and> results (handleAnalyzeClick_pending s) = results s
       \<and> handleAnalyzeClick getFinancialAnalysis s
           = s\<lparr>error := fst (calculateFinancials (data s))\<rparr>
       \<and> handleAnalyzeClick_pending s = s\<lparr>error := fst (calculateFinancials (data s))\<rparr>"
proof -
  have "snd (calculateFinancials (data s)) = None"
    using assms by (auto simp: calculateFinancials_def)
  then obtain e where e: "calculateFinancials (data s) = (e, None)"
    by (cases "calculateFinancials (data s)") simp
  then show ?thesis
    by (simp add: handleAnalyzeClick_def handleAnalyzeClick_pending_def)
qed

theorem C9_failure_keeps_results_witness:
  "monthlyIncome (initialData\<lparr>monthlyIncome := 0\<rparr>) \<le> 0
   \<and> results (handleAnalyzeClick (\<lambda>d r. ''analysis'')
        \<lparr> data = initialData\<lparr>monthlyIncome := 0\<rparr>,
          results = Some \<lparr> proceedsFromSale = 210000, newLoanAmount = 540000,
                           newMonthlyPayment = 4500, currentDTI = 28, newDTI = 55,
                           monthlyPaymentDifference = 2700 \<rparr>,
          analysis = ''earlier analysis'', isLoading = False, isValueLoading = False,
          isHomeDetailsLoading = False, error = [], isModalOpen = False \<rparr>)
     = Some \<lparr> proceedsFromSale = 210000, newLoanAmount = 540000,
              newMonthlyPayment = 4500, currentDTI = 28, newDTI = 55,
              monthlyPaymentDifference = 2700 \<rparr>"
  using C9_failure_keeps_results [of
        "\<lparr> data = initialData\<lparr>monthlyIncome := 0\<rparr>,
          results = Some \<lparr> proceedsFromSale = 210000, newLoanAmount = 540000,
                           newMonthlyPayment = 4500, currentDTI = 28, newDTI = 55,
                           monthlyPaymentDifference = 2700 \<rparr>,
          analysis = ''earlier analysis'', isLoading = False, isValueLoading = False,
          isHomeDetailsLoading = False, error = [], isModalOpen = False \<rparr>"
        "\<lambda>d r. ''analysis''"]
  by simp

end
